theory Spec2Isabelle
  imports Main
begin

section \<open>JavaScript values used by the tracker\<close>

text \<open>
  Identifiers arriving from the backend are typed \<^verbatim>\<open>number | string\<close> and optional.
  The source coerces them with \<^verbatim>\<open>a || b\<close> and \<^verbatim>\<open>String(v)\<close>; both are written out.
  Numbers are integers here (message and user ids); \<^verbatim>\<open>String\<close> of an integer is its
  decimal notation.
\<close>

datatype jsval = Undefined | Num int | Str string

fun truthy :: "jsval \<Rightarrow> bool" where
  "truthy Undefined = False"
| "truthy (Num n) = (n \<noteq> 0)"
| "truthy (Str s) = (s \<noteq> [])"

definition js_or :: "jsval \<Rightarrow> jsval \<Rightarrow> jsval" where
  "js_or a b = (if truthy a then a else b)"

definition digit_char :: "nat \<Rightarrow> char" where
  "digit_char d = ''0123456789'' ! d"

function string_of_nat :: "nat \<Rightarrow> string" where
  "string_of_nat n =
     (if n < 10 then [digit_char n] else string_of_nat (n div 10) @ [digit_char (n mod 10)])"
  by pat_completeness auto
termination
  by (relation "measure (\<lambda>n. n)") auto

declare string_of_nat.simps [simp del]

definition string_of_int :: "int \<Rightarrow> string" where
  "string_of_int i = (if i < 0 then CHR ''-'' # string_of_nat (nat (- i)) else string_of_nat (nat i))"

fun js_string :: "jsval \<Rightarrow> string" where
  "js_string Undefined = ''undefined''"
| "js_string (Num n) = string_of_int n"
| "js_string (Str s) = s"

section \<open>Data model (types.ts)\<close>

record TelegramMessage =
  msg_id :: int
  msg_text :: string
  fromId :: jsval
  senderId :: jsval
  msg_dialogId :: jsval
  chatId :: jsval

record TelegramDialog =
  dlg_id :: jsval
  dlg_userId :: jsval

record WhitelistEntry =
  userId :: string
  username :: string
  displayName :: string

record UnreadEntry =
  dialogId :: "string option"
  messages :: "TelegramMessage list"
  count :: nat

text \<open>
  A push event either carries a \<^verbatim>\<open>message\<close> object or is itself read as the message
  (\<^verbatim>\<open>event.message || event\<close>); \<open>ev_fields\<close> is the event read as a message.
\<close>

record DaemonEvent =
  ev_type :: "string option"
  ev_message :: "TelegramMessage option"
  ev_fields :: TelegramMessage

section \<open>Whitelist (whitelist.ts)\<close>

definition isWhitelisted :: "WhitelistEntry list \<Rightarrow> string \<Rightarrow> bool" where
  "isWhitelisted wl uid = list_ex (\<lambda>u. userId u = uid) wl"

section \<open>Unread tracker (tracker.ts)\<close>

datatype tracker_event =
    NewMessage string string TelegramMessage
  | UserUnreadsChanged string nat
  | MessagesRead string

text \<open>
  The tracker's own fields are \<open>unreads\<close> and \<open>lastSeenIds\<close>. The three other fields
  make its effects observable: the contents of the last-seen file, the notifications
  emitted so far (oldest first), and the ids sent to the backend's mark-read endpoint.
\<close>

record MessageTracker =
  unreads :: "string \<rightharpoonup> UnreadEntry"
  lastSeenIds :: "string \<rightharpoonup> int"
  lastSeenFile :: "string \<rightharpoonup> int"
  emitted :: "tracker_event list"
  daemonMarkRead :: "int list"

definition emit :: "tracker_event \<Rightarrow> MessageTracker \<Rightarrow> MessageTracker" where
  "emit e s = s\<lparr>emitted := emitted s @ [e]\<rparr>"

text \<open>
  The constructor starts with an empty ledger and loads the watermark file when it exists
  and parses (\<open>None\<close> stands for a missing or unreadable file, which the source ignores).
\<close>

definition loadLastSeen :: "(string \<rightharpoonup> int) option \<Rightarrow> (string \<rightharpoonup> int)" where
  "loadLastSeen file = (case file of None \<Rightarrow> Map.empty | Some data \<Rightarrow> data)"

definition new_tracker :: "(string \<rightharpoonup> int) option \<Rightarrow> MessageTracker" where
  "new_tracker file =
     \<lparr>unreads = Map.empty, lastSeenIds = loadLastSeen file,
      lastSeenFile = loadLastSeen file, emitted = [], daemonMarkRead = []\<rparr>"

text \<open>
  \<^verbatim>\<open>_saveLastSeen\<close> writes the whole watermark map; a failing write is swallowed by the
  source, so the outcome of the write is an input of the model.
\<close>

definition saveLastSeen :: "bool \<Rightarrow> MessageTracker \<Rightarrow> MessageTracker" where
  "saveLastSeen ok s = (if ok then s\<lparr>lastSeenFile := lastSeenIds s\<rparr> else s)"

definition addUnread :: "string \<Rightarrow> string \<Rightarrow> TelegramMessage \<Rightarrow> MessageTracker \<Rightarrow> MessageTracker" where
  "addUnread uid did msg s =
     (let fresh = \<lparr>dialogId = Some did, messages = [], count = 0\<rparr>;
          s1 = (case unreads s uid of
                  None \<Rightarrow> s\<lparr>unreads := (unreads s)(uid \<mapsto> fresh)\<rparr>
                | Some e \<Rightarrow> s);
          entry = (case unreads s uid of None \<Rightarrow> fresh | Some e \<Rightarrow> e)
      in if list_ex (\<lambda>m. msg_id m = msg_id msg) (messages entry) then s1
         else
           (let msgs = messages entry @ [msg];
                entry' = \<lparr>dialogId = Some did, messages = msgs, count = length msgs\<rparr>
            in emit (UserUnreadsChanged uid (count entry'))
                 (emit (NewMessage uid did msg)
                    (s1\<lparr>unreads := (unreads s1)(uid \<mapsto> entry')\<rparr>))))"

definition handleNewMessage :: "WhitelistEntry list \<Rightarrow> DaemonEvent \<Rightarrow> MessageTracker \<Rightarrow> MessageTracker" where
  "handleNewMessage wl event s =
     (let msg = (case ev_message event of Some m \<Rightarrow> m | None \<Rightarrow> ev_fields event);
          from = js_string (js_or (js_or (fromId msg) (senderId msg)) (Str ''''));
          did = js_string (js_or (js_or (msg_dialogId msg) (chatId msg)) (Str ''''))
      in if from = [] \<or> \<not> isWhitelisted wl from then s
         else addUnread from did msg s)"

text \<open>
  One iteration of the loop of \<^verbatim>\<open>_poll\<close>: \<open>fetched\<close> is what \<^verbatim>\<open>getMessages(dialogId, 10)\<close>
  returned for this dialog (\<open>None\<close> when it is not an array). \<open>pollNewMsgs\<close> is the
  source's \<^verbatim>\<open>newMsgs\<close>; a watermark is used only when it is truthy.
\<close>

definition pollNewMsgs :: "int option \<Rightarrow> string \<Rightarrow> TelegramMessage list \<Rightarrow> TelegramMessage list" where
  "pollNewMsgs lastSeen uid msgs =
     (case lastSeen of
        None \<Rightarrow> []
      | Some w \<Rightarrow>
          if w = 0 then []
          else filter (\<lambda>m. msg_id m > w \<and> js_string (js_or (fromId m) (senderId m)) = uid) msgs)"

fun addAll :: "string \<Rightarrow> string \<Rightarrow> TelegramMessage list \<Rightarrow> MessageTracker \<Rightarrow> MessageTracker" where
  "addAll uid did [] s = s"
| "addAll uid did (m # ms) s = addAll uid did ms (addUnread uid did m s)"

definition pollDialog ::
  "WhitelistEntry list \<Rightarrow> TelegramDialog \<Rightarrow> TelegramMessage list option \<Rightarrow> MessageTracker \<Rightarrow> MessageTracker" where
  "pollDialog wl d fetched s =
     (let uid = js_string (js_or (dlg_userId d) (dlg_id d))
      in if \<not> isWhitelisted wl uid then s
         else
           (let did = js_string (dlg_id d)
            in case fetched of
                 None \<Rightarrow> s
               | Some msgs \<Rightarrow>
                   if msgs = [] then s
                   else addAll uid did (pollNewMsgs (lastSeenIds s did) uid msgs) s))"

text \<open>
  A whole tick: nothing happens while the daemon is not connected or when the dialog list
  is not an array; \<open>fetch\<close> gives the backend's answer for each dialog id.
\<close>

fun pollDialogs ::
  "WhitelistEntry list \<Rightarrow> (string \<Rightarrow> TelegramMessage list option) \<Rightarrow> TelegramDialog list \<Rightarrow>
   MessageTracker \<Rightarrow> MessageTracker" where
  "pollDialogs wl fetch [] s = s"
| "pollDialogs wl fetch (d # ds) s =
     pollDialogs wl fetch ds (pollDialog wl d (fetch (js_string (dlg_id d))) s)"

definition poll ::
  "bool \<Rightarrow> WhitelistEntry list \<Rightarrow> TelegramDialog list option \<Rightarrow>
   (string \<Rightarrow> TelegramMessage list option) \<Rightarrow> MessageTracker \<Rightarrow> MessageTracker" where
  "poll connected wl dialogs fetch s =
     (if \<not> connected then s
      else case dialogs of None \<Rightarrow> s | Some ds \<Rightarrow> pollDialogs wl fetch ds s)"

definition markRead :: "bool \<Rightarrow> string \<Rightarrow> MessageTracker \<Rightarrow> MessageTracker" where
  "markRead ok uid s =
     (case unreads s uid of
        None \<Rightarrow> s
      | Some entry \<Rightarrow>
          (let s1 = (if messages entry = [] then s
                     else
                       (let latest = last (messages entry);
                            key = (case dialogId entry of None \<Rightarrow> '''' | Some d \<Rightarrow> d);
                            s2 = saveLastSeen ok (s\<lparr>lastSeenIds := (lastSeenIds s)(key \<mapsto> msg_id latest)\<rparr>)
                        in s2\<lparr>daemonMarkRead := daemonMarkRead s2 @ [msg_id latest]\<rparr>))
           in emit (UserUnreadsChanged uid 0)
                (emit (MessagesRead uid) (s1\<lparr>unreads := (unreads s1)(uid := None)\<rparr>))))"

definition getUnreads :: "string \<Rightarrow> MessageTracker \<Rightarrow> UnreadEntry \<times> MessageTracker" where
  "getUnreads uid s =
     (case unreads s uid of
        Some entry \<Rightarrow> (entry, s)
      | None \<Rightarrow> (\<lparr>dialogId = None, messages = [], count = 0\<rparr>, s))"

definition stop :: "bool \<Rightarrow> MessageTracker \<Rightarrow> MessageTracker" where
  "stop ok s = saveLastSeen ok s"

text \<open>
  The operations of the tracker as atomic steps. The loop of \<^verbatim>\<open>_poll\<close> suspends between
  dialogs, so one dialog of a tick is one step and other steps may come in between.
\<close>

datatype tracker_op =
    Push "WhitelistEntry list" DaemonEvent
  | PollDialog "WhitelistEntry list" TelegramDialog "TelegramMessage list option"
  | MarkRead bool string
  | Stop bool

fun step :: "tracker_op \<Rightarrow> MessageTracker \<Rightarrow> MessageTracker" where
  "step (Push wl ev) s = handleNewMessage wl ev s"
| "step (PollDialog wl d fetched) s = pollDialog wl d fetched s"
| "step (MarkRead ok uid) s = markRead ok uid s"
| "step (Stop ok) s = stop ok s"

fun run :: "tracker_op list \<Rightarrow> MessageTracker \<Rightarrow> MessageTracker" where
  "run [] s = s"
| "run (op # ops) s = run ops (step op s)"

fun is_markRead :: "tracker_op \<Rightarrow> bool" where
  "is_markRead (MarkRead ok uid) = True"
| "is_markRead _ = False"

subsection \<open>Vocabulary of the tracker's properties\<close>

text \<open>\<open>has_id s uid i\<close>: the ledger row of contact \<open>uid\<close> holds a message with id \<open>i\<close>.\<close>

definition has_id :: "MessageTracker \<Rightarrow> string \<Rightarrow> int \<Rightarrow> bool" where
  "has_id s uid i =
     (case unreads s uid of None \<Rightarrow> False | Some e \<Rightarrow> list_ex (\<lambda>m. msg_id m = i) (messages e))"

text \<open>The key under which \<^verbatim>\<open>markRead\<close> stores the watermark of an entry.\<close>

definition entry_key :: "UnreadEntry \<Rightarrow> string" where
  "entry_key e = (case dialogId e of None \<Rightarrow> '''' | Some d \<Rightarrow> d)"

definition entry_ok :: "UnreadEntry \<Rightarrow> bool" where
  "entry_ok e = (count e = length (messages e) \<and> distinct (map msg_id (messages e)) \<and>
                 messages e \<noteq> [] \<and> dialogId e \<noteq> None)"

definition tracker_inv :: "MessageTracker \<Rightarrow> bool" where
  "tracker_inv s = (\<forall>uid e. unreads s uid = Some e \<longrightarrow> entry_ok e)"

text \<open>Order on stored watermarks: an absent watermark is below every stored one.\<close>

fun wm_le :: "int option \<Rightarrow> int option \<Rightarrow> bool" where
  "wm_le None _ = True"
| "wm_le (Some a) None = False"
| "wm_le (Some a) (Some b) = (a \<le> b)"

section \<open>Connection supervisor (daemon.js)\<close>

text \<open>
  The supervisor's fields are \<open>connected\<close>, \<open>ws\<close> (whether a socket object is held),
  \<open>reconnectAttempts\<close>, \<open>reconnectTimer\<close> (the delay of the armed timeout, if any) and
  \<open>healthCheckTimer\<close>. Two more fields make its effects observable: \<open>timeouts\<close> lists the
  delays handed to \<^verbatim>\<open>setTimeout\<close> by \<^verbatim>\<open>_scheduleReconnect\<close>, oldest first, and
  \<open>d_emitted\<close> lists the notifications emitted, by name and payload.

  The outcome of \<^verbatim>\<open>_request\<close> is an input: \<open>Some body\<close> when the request resolves and
  \<open>None\<close> when it rejects (transport error or timeout).
\<close>

datatype payload = PNone | PBool bool | PEvent DaemonEvent

datatype reply = Null | EmptyArray | Body string

record DaemonClient =
  connected :: bool
  ws :: bool
  reconnectAttempts :: nat
  reconnectTimer :: "nat option"
  healthCheckTimer :: "nat option"
  timeouts :: "nat list"
  d_emitted :: "(string \<times> payload) list"

definition maxReconnectDelay :: nat where
  "maxReconnectDelay = 30000"

definition new_daemon :: DaemonClient where
  "new_daemon = \<lparr>connected = False, ws = False, reconnectAttempts = 0, reconnectTimer = None,
                  healthCheckTimer = None, timeouts = [], d_emitted = []\<rparr>"

definition d_emit :: "string \<Rightarrow> payload \<Rightarrow> DaemonClient \<Rightarrow> DaemonClient" where
  "d_emit name p s = s\<lparr>d_emitted := d_emitted s @ [(name, p)]\<rparr>"

definition getHealth :: "string option \<Rightarrow> DaemonClient \<Rightarrow> reply \<times> DaemonClient" where
  "getHealth res s =
     (case res of
        Some body \<Rightarrow> (Body body, d_emit ''connection-changed'' (PBool True) (s\<lparr>connected := True\<rparr>))
      | None \<Rightarrow> (Null, d_emit ''connection-changed'' (PBool False) (s\<lparr>connected := False\<rparr>)))"

definition getMe :: "string option \<Rightarrow> DaemonClient \<Rightarrow> reply \<times> DaemonClient" where
  "getMe res s = (case res of Some body \<Rightarrow> (Body body, s) | None \<Rightarrow> (Null, s))"

definition getDialogs :: "string option \<Rightarrow> DaemonClient \<Rightarrow> reply \<times> DaemonClient" where
  "getDialogs res s = (case res of Some body \<Rightarrow> (Body body, s) | None \<Rightarrow> (EmptyArray, s))"

definition getMessages :: "string option \<Rightarrow> DaemonClient \<Rightarrow> reply \<times> DaemonClient" where
  "getMessages res s = (case res of Some body \<Rightarrow> (Body body, s) | None \<Rightarrow> (EmptyArray, s))"

definition sendMessage :: "string option \<Rightarrow> DaemonClient \<Rightarrow> reply \<times> DaemonClient" where
  "sendMessage res s = (case res of Some body \<Rightarrow> (Body body, s) | None \<Rightarrow> (Null, s))"

definition daemon_markRead :: "string option \<Rightarrow> DaemonClient \<Rightarrow> reply \<times> DaemonClient" where
  "daemon_markRead res s = (case res of Some body \<Rightarrow> (Body body, s) | None \<Rightarrow> (Null, s))"

text \<open>
  \<^verbatim>\<open>Math.min(1000 * Math.pow(2, attempts), maxReconnectDelay)\<close>, then the increment. The
  source computes in doubles, where the power overflows to infinity beyond 1023 attempts and
  the minimum is still 30000, as it is here.
\<close>

definition scheduleReconnect :: "DaemonClient \<Rightarrow> DaemonClient" where
  "scheduleReconnect s =
     (let delay = min (1000 * 2 ^ reconnectAttempts s) maxReconnectDelay
      in s\<lparr>reconnectAttempts := reconnectAttempts s + 1,
            reconnectTimer := Some delay,
            timeouts := timeouts s @ [delay]\<rparr>)"

text \<open>
  \<^verbatim>\<open>connectWS\<close>: \<open>available\<close> says whether a socket could be constructed; when neither
  constructor works the source schedules a reconnect and returns. Closing the previous
  socket changes none of the fields; its close event is a later step. The handlers it
  registers are the four functions below, run when the socket reports the event.
\<close>

definition connectWS :: "bool \<Rightarrow> DaemonClient \<Rightarrow> DaemonClient" where
  "connectWS available s = (if available then s\<lparr>ws := True\<rparr> else scheduleReconnect s)"

definition ws_open :: "DaemonClient \<Rightarrow> DaemonClient" where
  "ws_open s =
     d_emit ''ws-connected'' PNone
       (d_emit ''connection-changed'' (PBool True) (s\<lparr>reconnectAttempts := 0, connected := True\<rparr>))"

text \<open>
  An inbound frame that does not parse (\<open>None\<close>) is logged and dropped; a parsed event is
  emitted as \<^verbatim>\<open>event\<close> and, when its \<^verbatim>\<open>type\<close> is truthy, again under that name.
\<close>

definition ws_message :: "DaemonEvent option \<Rightarrow> DaemonClient \<Rightarrow> DaemonClient" where
  "ws_message frame s =
     (case frame of
        None \<Rightarrow> s
      | Some event \<Rightarrow>
          (let s1 = d_emit ''event'' (PEvent event) s
           in case ev_type event of
                None \<Rightarrow> s1
              | Some t \<Rightarrow> if t = [] then s1 else d_emit t (PEvent event) s1))"

definition ws_close :: "DaemonClient \<Rightarrow> DaemonClient" where
  "ws_close s =
     scheduleReconnect
       (d_emit ''ws-disconnected'' PNone
          (d_emit ''connection-changed'' (PBool False) (s\<lparr>connected := False\<rparr>)))"

definition ws_error :: "DaemonClient \<Rightarrow> DaemonClient" where
  "ws_error s = s"

definition stopHealthCheck :: "DaemonClient \<Rightarrow> DaemonClient" where
  "stopHealthCheck s = s\<lparr>healthCheckTimer := None\<rparr>"

definition startHealthCheck :: "nat \<Rightarrow> DaemonClient \<Rightarrow> DaemonClient" where
  "startHealthCheck intervalMs s = (stopHealthCheck s)\<lparr>healthCheckTimer := Some intervalMs\<rparr>"

definition daemon_stop :: "DaemonClient \<Rightarrow> DaemonClient" where
  "daemon_stop s = (stopHealthCheck s)\<lparr>reconnectTimer := None\<rparr>"

text \<open>
  The supervisor's operations as atomic steps. \<open>GetHealth\<close> is the completion of a health
  request, whether started by the health timer, by \<^verbatim>\<open>startHealthCheck\<close> or by a caller;
  \<open>ConnectWS\<close> is a call of \<^verbatim>\<open>connectWS\<close>, by \<^verbatim>\<open>start\<close> or by the reconnect timer.
\<close>

datatype daemon_op =
    GetHealth "string option"
  | GetMe "string option"
  | GetDialogs "string option"
  | GetMessages "string option"
  | SendMessage "string option"
  | MarkReadReq "string option"
  | ConnectWS bool
  | WsOpen
  | WsMessage "DaemonEvent option"
  | WsClose
  | WsError
  | StartHealthCheck nat
  | StopHealthCheck
  | StopDaemon

fun dstep :: "daemon_op \<Rightarrow> DaemonClient \<Rightarrow> DaemonClient" where
  "dstep (GetHealth r) s = snd (getHealth r s)"
| "dstep (GetMe r) s = snd (getMe r s)"
| "dstep (GetDialogs r) s = snd (getDialogs r s)"
| "dstep (GetMessages r) s = snd (getMessages r s)"
| "dstep (SendMessage r) s = snd (sendMessage r s)"
| "dstep (MarkReadReq r) s = snd (daemon_markRead r s)"
| "dstep (ConnectWS a) s = connectWS a s"
| "dstep WsOpen s = ws_open s"
| "dstep (WsMessage f) s = ws_message f s"
| "dstep WsClose s = ws_close s"
| "dstep WsError s = ws_error s"
| "dstep (StartHealthCheck i) s = startHealthCheck i s"
| "dstep StopHealthCheck s = stopHealthCheck s"
| "dstep StopDaemon s = daemon_stop s"

fun drun :: "daemon_op list \<Rightarrow> DaemonClient \<Rightarrow> DaemonClient" where
  "drun [] s = s"
| "drun (op # ops) s = drun ops (dstep op s)"

subsection \<open>Vocabulary of the supervisor's properties\<close>

text \<open>The steps that call \<^verbatim>\<open>_scheduleReconnect\<close>.\<close>

fun schedules :: "daemon_op \<Rightarrow> bool" where
  "schedules WsClose = True"
| "schedules (ConnectWS a) = (\<not> a)"
| "schedules _ = False"

text \<open>The delay of the Nth scheduled attempt in the words of the specification.\<close>

definition spec_backoff :: "nat \<Rightarrow> nat" where
  "spec_backoff N = min (1000 * 2 ^ (N - 1)) 30000"

text \<open>What one step adds to the notifications emitted so far.\<close>

definition emitted_by :: "daemon_op \<Rightarrow> DaemonClient \<Rightarrow> (string \<times> payload) list" where
  "emitted_by op s = drop (length (d_emitted s)) (d_emitted (dstep op s))"

text \<open>The steps that write the \<open>connected\<close> flag.\<close>

fun flips :: "daemon_op \<Rightarrow> bool" where
  "flips (GetHealth r) = True"
| "flips WsOpen = True"
| "flips WsClose = True"
| "flips _ = False"

fun frame_type :: "daemon_op \<Rightarrow> string option" where
  "frame_type (WsMessage (Some ev)) = ev_type ev"
| "frame_type _ = None"

section \<open>Bubble window pool (bubbles.ts)\<close>

record AppSettings =
  alwaysOnTop :: bool
  bubblePosition :: string
  bubbleSize :: int
  maxBubbles :: int
  pollIntervalMs :: int
  showNotifications :: bool

definition DEFAULT_settings :: AppSettings where
  "DEFAULT_settings = \<lparr>alwaysOnTop = True, bubblePosition = ''right'', bubbleSize = 64,
                         maxBubbles = 5, pollIntervalMs = 3000, showNotifications = True\<rparr>"

text \<open>
  A window is its position, whether it is destroyed, whether it is shown, the count it was
  created with and the counts sent to it as \<^verbatim>\<open>bubble-update\<close>.
\<close>

record BrowserWindow =
  win_x :: int
  win_y :: int
  destroyed :: bool
  shown :: bool
  initCount :: int
  updates :: "int list"

text \<open>
  \<open>bubbles\<close> is a JavaScript \<^verbatim>\<open>Map\<close>: keys are unique and iteration follows insertion
  order, so it is a list of pairs to which a new key is appended.
\<close>

record BubbleManager =
  bubbles :: "(string \<times> BrowserWindow) list"
  visible :: bool

definition BUBBLE_SIZE :: int where
  "BUBBLE_SIZE = 64"

definition BUBBLE_GAP :: int where
  "BUBBLE_GAP = 12"

definition EDGE_MARGIN :: int where
  "EDGE_MARGIN = 20"

definition MAX_BUBBLES :: nat where
  "MAX_BUBBLES = 5"

definition new_bubbles :: BubbleManager where
  "new_bubbles = \<lparr>bubbles = [], visible = True\<rparr>"

definition map_has :: "string \<Rightarrow> (string \<times> 'a) list \<Rightarrow> bool" where
  "map_has k m = list_ex (\<lambda>p. fst p = k) m"

definition map_delete :: "string \<Rightarrow> (string \<times> 'a) list \<Rightarrow> (string \<times> 'a) list" where
  "map_delete k m = filter (\<lambda>p. fst p \<noteq> k) m"

definition edge_x :: "int \<Rightarrow> AppSettings \<Rightarrow> int" where
  "edge_x screenW settings =
     (let position = (if bubblePosition settings = [] then ''right'' else bubblePosition settings)
      in if position = ''right'' then screenW - BUBBLE_SIZE - EDGE_MARGIN else EDGE_MARGIN)"

definition slot_y :: "nat \<Rightarrow> int" where
  "slot_y index = 100 + int index * (BUBBLE_SIZE + BUBBLE_GAP)"

definition updateBubble :: "string \<Rightarrow> int \<Rightarrow> BubbleManager \<Rightarrow> BubbleManager" where
  "updateBubble uid cnt b =
     b\<lparr>bubbles := map (\<lambda>(k, w). if k = uid \<and> \<not> destroyed w
                                   then (k, w\<lparr>updates := updates w @ [cnt]\<rparr>) else (k, w))
                        (bubbles b)\<rparr>"

definition createBubble :: "int \<Rightarrow> AppSettings \<Rightarrow> string \<Rightarrow> int \<Rightarrow> BubbleManager \<Rightarrow> BubbleManager" where
  "createBubble screenW settings uid unreadCount b =
     (if map_has uid (bubbles b) then updateBubble uid unreadCount b
      else if length (bubbles b) \<ge> MAX_BUBBLES then b
      else
        (let index = length (bubbles b);
             bubble = \<lparr>win_x = edge_x screenW settings, win_y = slot_y index, destroyed = False,
                       shown = True, initCount = unreadCount, updates = []\<rparr>
         in b\<lparr>bubbles := bubbles b @ [(uid, bubble)]\<rparr>))"

definition removeBubble :: "string \<Rightarrow> BubbleManager \<Rightarrow> BubbleManager" where
  "removeBubble uid b = b\<lparr>bubbles := map_delete uid (bubbles b)\<rparr>"

text \<open>The \<^verbatim>\<open>closed\<close> handler registered by \<^verbatim>\<open>createBubble\<close>, and a window destroyed from outside.\<close>

definition window_closed :: "string \<Rightarrow> BubbleManager \<Rightarrow> BubbleManager" where
  "window_closed uid b = b\<lparr>bubbles := map_delete uid (bubbles b)\<rparr>"

definition window_destroyed :: "string \<Rightarrow> BubbleManager \<Rightarrow> BubbleManager" where
  "window_destroyed uid b =
     b\<lparr>bubbles := map (\<lambda>(k, w). if k = uid then (k, w\<lparr>destroyed := True\<rparr>) else (k, w)) (bubbles b)\<rparr>"

definition showAll :: "BubbleManager \<Rightarrow> BubbleManager" where
  "showAll b =
     b\<lparr>visible := True,
       bubbles := map (\<lambda>(k, w). if destroyed w then (k, w) else (k, w\<lparr>shown := True\<rparr>)) (bubbles b)\<rparr>"

definition hideAll :: "BubbleManager \<Rightarrow> BubbleManager" where
  "hideAll b =
     b\<lparr>visible := False,
       bubbles := map (\<lambda>(k, w). if destroyed w then (k, w) else (k, w\<lparr>shown := False\<rparr>)) (bubbles b)\<rparr>"

definition toggleVisibility :: "BubbleManager \<Rightarrow> BubbleManager" where
  "toggleVisibility b = (if visible b then hideAll b else showAll b)"

text \<open>The loop of \<^verbatim>\<open>repositionAll\<close>: destroyed windows are skipped and take no slot.\<close>

fun reposition :: "int \<Rightarrow> nat \<Rightarrow> (string \<times> BrowserWindow) list \<Rightarrow> (string \<times> BrowserWindow) list" where
  "reposition x index [] = []"
| "reposition x index ((k, w) # rest) =
     (if destroyed w then (k, w) # reposition x index rest
      else (k, w\<lparr>win_x := x, win_y := slot_y index\<rparr>) # reposition x (index + 1) rest)"

definition repositionAll :: "int \<Rightarrow> AppSettings \<Rightarrow> BubbleManager \<Rightarrow> BubbleManager" where
  "repositionAll screenW settings b =
     b\<lparr>bubbles := reposition (edge_x screenW settings) 0 (bubbles b)\<rparr>"

definition destroyAll :: "BubbleManager \<Rightarrow> BubbleManager" where
  "destroyAll b = b\<lparr>bubbles := []\<rparr>"

definition handleUnreadsChanged :: "int \<Rightarrow> AppSettings \<Rightarrow> string \<Rightarrow> int \<Rightarrow> BubbleManager \<Rightarrow> BubbleManager" where
  "handleUnreadsChanged screenW settings uid cnt b =
     (if cnt > 0 then createBubble screenW settings uid cnt b else removeBubble uid b)"

text \<open>
  \<^verbatim>\<open>updateSettings(partial)\<close> of whitelist.ts and the \<^verbatim>\<open>update-settings\<close> handler of
  main.ts, which repositions only when the partial settings carry a \<^verbatim>\<open>bubblePosition\<close>.
\<close>

record PartialSettings =
  p_alwaysOnTop :: "bool option"
  p_bubblePosition :: "string option"
  p_bubbleSize :: "int option"
  p_maxBubbles :: "int option"
  p_pollIntervalMs :: "int option"
  p_showNotifications :: "bool option"

definition updateSettings :: "PartialSettings \<Rightarrow> AppSettings \<Rightarrow> AppSettings" where
  "updateSettings p st =
     \<lparr>alwaysOnTop = (case p_alwaysOnTop p of None \<Rightarrow> alwaysOnTop st | Some v \<Rightarrow> v),
      bubblePosition = (case p_bubblePosition p of None \<Rightarrow> bubblePosition st | Some v \<Rightarrow> v),
      bubbleSize = (case p_bubbleSize p of None \<Rightarrow> bubbleSize st | Some v \<Rightarrow> v),
      maxBubbles = (case p_maxBubbles p of None \<Rightarrow> maxBubbles st | Some v \<Rightarrow> v),
      pollIntervalMs = (case p_pollIntervalMs p of None \<Rightarrow> pollIntervalMs st | Some v \<Rightarrow> v),
      showNotifications = (case p_showNotifications p of None \<Rightarrow> showNotifications st | Some v \<Rightarrow> v)\<rparr>"

definition update_settings_handler ::
  "int \<Rightarrow> PartialSettings \<Rightarrow> AppSettings \<times> BubbleManager \<Rightarrow> AppSettings \<times> BubbleManager" where
  "update_settings_handler screenW p sb =
     (let st' = updateSettings p (fst sb)
      in if p_bubblePosition p \<noteq> None then (st', repositionAll screenW st' (snd sb))
         else (st', snd sb))"

text \<open>
  The events that reach the pool, as steps on the settings and the pool; \<open>screenW\<close> is the
  width of the primary display's work area.
\<close>

datatype pool_op =
    UnreadsChanged string int
  | RemoveBubble string
  | WindowClosed string
  | WindowDestroyed string
  | ShowAll
  | HideAll
  | ToggleVisibility
  | DestroyAll
  | UpdateSettings PartialSettings

fun pstep :: "int \<Rightarrow> pool_op \<Rightarrow> AppSettings \<times> BubbleManager \<Rightarrow> AppSettings \<times> BubbleManager" where
  "pstep screenW (UnreadsChanged uid cnt) (st, b) = (st, handleUnreadsChanged screenW st uid cnt b)"
| "pstep screenW (RemoveBubble uid) (st, b) = (st, removeBubble uid b)"
| "pstep screenW (WindowClosed uid) (st, b) = (st, window_closed uid b)"
| "pstep screenW (WindowDestroyed uid) (st, b) = (st, window_destroyed uid b)"
| "pstep screenW ShowAll (st, b) = (st, showAll b)"
| "pstep screenW HideAll (st, b) = (st, hideAll b)"
| "pstep screenW ToggleVisibility (st, b) = (st, toggleVisibility b)"
| "pstep screenW DestroyAll (st, b) = (st, destroyAll b)"
| "pstep screenW (UpdateSettings p) (st, b) = update_settings_handler screenW p (st, b)"

fun prun :: "int \<Rightarrow> pool_op list \<Rightarrow> AppSettings \<times> BubbleManager \<Rightarrow> AppSettings \<times> BubbleManager" where
  "prun screenW [] sb = sb"
| "prun screenW (op # ops) sb = prun screenW ops (pstep screenW op sb)"

text \<open>The user ids and vertical positions of the windows of a pool, in map order.\<close>

definition layout :: "AppSettings \<times> BubbleManager \<Rightarrow> (string \<times> int) list" where
  "layout sb = map (\<lambda>p. (fst p, win_y (snd p))) (bubbles (snd sb))"

section \<open>Example data\<close>

definition ex_contact :: WhitelistEntry where
  "ex_contact = \<lparr>userId = ''42'', username = ''a'', displayName = ''A''\<rparr>"

definition ex_msg :: "int \<Rightarrow> string \<Rightarrow> TelegramMessage" where
  "ex_msg i t = \<lparr>msg_id = i, msg_text = t, fromId = Num 42, senderId = Undefined,
                 msg_dialogId = Str ''d1'', chatId = Undefined\<rparr>"

definition ex_push :: "int \<Rightarrow> DaemonEvent" where
  "ex_push i = \<lparr>ev_type = Some ''newMessage'', ev_message = Some (ex_msg i ''hi''),
                ev_fields = ex_msg i ''hi''\<rparr>"

definition ex_dialog :: TelegramDialog where
  "ex_dialog = \<lparr>dlg_id = Str ''d1'', dlg_userId = Num 42\<rparr>"

definition ex_state :: MessageTracker where
  "ex_state = addUnread ''42'' ''d1'' (ex_msg 7 ''hi'') (new_tracker None)"

definition ex_entry :: UnreadEntry where
  "ex_entry = \<lparr>dialogId = Some ''d1'', messages = [ex_msg 7 ''hi'', ex_msg 8 ''hi''], count = 2\<rparr>"

definition ex_ops :: "tracker_op list" where
  "ex_ops = [Push [ex_contact] (ex_push 7), Push [ex_contact] (ex_push 7),
             PollDialog [ex_contact] ex_dialog (Some [ex_msg 9 ''hi'']),
             Push [ex_contact] (ex_push 8)]"

text \<open>A tracker started with watermark 3 stored for dialog \<open>d1\<close>, after message 7 was pushed.\<close>

definition ex_disk :: "(string \<rightharpoonup> int) option" where
  "ex_disk = Some (Map.empty(''d1'' \<mapsto> 3))"

definition ex_single :: UnreadEntry where
  "ex_single = \<lparr>dialogId = Some ''d1'', messages = [ex_msg 7 ''hi''], count = 1\<rparr>"

definition ex_unread :: MessageTracker where
  "ex_unread = run [Push [ex_contact] (ex_push 7)] (new_tracker ex_disk)"

text \<open>A tracker started with watermark 0 stored for dialog \<open>d1\<close>.\<close>

definition ex_zero :: MessageTracker where
  "ex_zero = new_tracker (Some (Map.empty(''d1'' \<mapsto> 0)))"






text \<open>Six scheduled reconnects in a row, with a failed health check in between.\<close>

definition ex_daemon_ops :: "daemon_op list" where
  "ex_daemon_ops = [WsClose, ConnectWS False, GetHealth None, ConnectWS False, WsClose,
                    ConnectWS False, ConnectWS False]"





text \<open>Contacts \<open>a\<close> and \<open>b\<close> get a window, then \<open>a\<close> is read; later \<open>c\<close> gets a window.\<close>

definition ex_gap :: "pool_op list" where
  "ex_gap = [UnreadsChanged ''a'' 1, UnreadsChanged ''b'' 1, UnreadsChanged ''a'' 0]"

definition ex_left :: PartialSettings where
  "ex_left = \<lparr>p_alwaysOnTop = None, p_bubblePosition = Some ''left'', p_bubbleSize = None,
              p_maxBubbles = None, p_pollIntervalMs = None, p_showNotifications = None\<rparr>"

section \<open>Properties of the unread tracker\<close>

lemmas tracker_eval = handleNewMessage_def pollDialog_def pollNewMsgs_def addUnread_def markRead_def
  getUnreads_def stop_def saveLastSeen_def emit_def new_tracker_def loadLastSeen_def
  isWhitelisted_def js_or_def string_of_int_def string_of_nat.simps digit_char_def Let_def
  has_id_def entry_key_def ex_contact_def ex_msg_def ex_push_def ex_dialog_def

subsection \<open>Acceptance\<close>

lemma addUnread_dup: "has_id s uid (msg_id m) \<Longrightarrow> addUnread uid did m s = s"
  by (auto simp: has_id_def addUnread_def Let_def split: option.splits)

lemma addUnread_has: "has_id (addUnread uid did m s) uid (msg_id m)"
  by (auto simp: has_id_def addUnread_def Let_def emit_def list_ex_iff split: option.splits)

lemma addUnread_keeps: "has_id s u i \<Longrightarrow> has_id (addUnread uid did m s) u i"
  by (auto simp: has_id_def addUnread_def Let_def emit_def list_ex_iff split: option.splits)


lemma addUnread_lastSeen: "lastSeenIds (addUnread uid did m s) = lastSeenIds s"
  by (auto simp: addUnread_def Let_def emit_def split: option.splits)

lemma addAll_lastSeen: "lastSeenIds (addAll uid did ms s) = lastSeenIds s"
  by (induction ms arbitrary: s) (auto simp: addUnread_lastSeen)

lemma addAll_keeps: "has_id s u i \<Longrightarrow> has_id (addAll uid did ms s) u i"
  by (induction ms arbitrary: s) (auto simp: addUnread_keeps)

lemma addAll_has: "m \<in> set ms \<Longrightarrow> has_id (addAll uid did ms s) uid (msg_id m)"
  by (induction ms arbitrary: s) (auto simp: addUnread_has addAll_keeps)

lemma addAll_dup: "\<forall>m\<in>set ms. has_id s uid (msg_id m) \<Longrightarrow> addAll uid did ms s = s"
  by (induction ms arbitrary: s) (auto simp: addUnread_dup)


lemma handleNewMessage_twice:
  "handleNewMessage wl ev (handleNewMessage wl ev s) = handleNewMessage wl ev s"
  by (auto simp: handleNewMessage_def Let_def addUnread_dup addUnread_has)

lemma pollDialog_twice: "pollDialog wl d f (pollDialog wl d f s) = pollDialog wl d f s"
  by (auto simp: pollDialog_def Let_def addAll_lastSeen addAll_dup addAll_has split: option.splits)

lemma handleNewMessage_keeps: "has_id s u i \<Longrightarrow> has_id (handleNewMessage wl ev s) u i"
  by (auto simp: handleNewMessage_def Let_def addUnread_keeps)

lemma pollDialog_keeps: "has_id s u i \<Longrightarrow> has_id (pollDialog wl d f s) u i"
  by (auto simp: pollDialog_def Let_def addAll_keeps split: option.splits)

text \<open>
  C1. Acceptance into a contact's ledger is idempotent. When the ledger row of the contact
  already holds a message with the id of \<open>m\<close>, \<^verbatim>\<open>_addUnread\<close> returns the tracker as it was:
  the same rows, the same counts and no notification added. Hence accepting a message with
  the same id a second time, under any dialog id and with any content, gives the state of
  accepting once; the push handler and a poll of a dialog, which both go through
  \<^verbatim>\<open>_addUnread\<close>, are idempotent as whole steps, and neither of them removes an id from a
  row, so an id once accepted on one path is a duplicate on the other.
\<close>

theorem acceptance_idempotent:
  "(has_id s uid (msg_id m) \<longrightarrow>
      addUnread uid did m s = s \<and>
      has_id (handleNewMessage wl ev s) uid (msg_id m) \<and>
      has_id (pollDialog wl d f s) uid (msg_id m)) \<and>
   (msg_id m' = msg_id m \<longrightarrow>
      addUnread uid did' m' (addUnread uid did m s) = addUnread uid did m s) \<and>
   handleNewMessage wl ev (handleNewMessage wl ev s) = handleNewMessage wl ev s \<and>
   pollDialog wl d f (pollDialog wl d f s) = pollDialog wl d f s"
  using addUnread_has[of uid did m s]
  by (auto simp: addUnread_dup handleNewMessage_twice pollDialog_twice
        handleNewMessage_keeps pollDialog_keeps)

theorem acceptance_idempotent_witness:
  "has_id ex_state ''42'' (msg_id (ex_msg 7 ''hi'')) \<and>
   msg_id (ex_msg 7 ''again'') = msg_id (ex_msg 7 ''hi'') \<and>
   addUnread ''42'' ''d1'' (ex_msg 7 ''hi'') ex_state = ex_state \<and>
   addUnread ''42'' ''d2'' (ex_msg 7 ''again'') (addUnread ''42'' ''d1'' (ex_msg 7 ''hi'') ex_state) =
     addUnread ''42'' ''d1'' (ex_msg 7 ''hi'') ex_state \<and>
   emitted (addUnread ''42'' ''d2'' (ex_msg 7 ''again'') ex_state) =
     [NewMessage ''42'' ''d1'' (ex_msg 7 ''hi''), UserUnreadsChanged ''42'' 1]"
proof -
  have h1: "has_id ex_state ''42'' (msg_id (ex_msg 7 ''hi''))"
    by (simp add: ex_state_def tracker_eval)
  have h2: "msg_id (ex_msg 7 ''again'') = msg_id (ex_msg 7 ''hi'')"
    by (simp add: ex_msg_def)
  have e: "emitted ex_state = [NewMessage ''42'' ''d1'' (ex_msg 7 ''hi''), UserUnreadsChanged ''42'' 1]"
    by (simp add: ex_state_def tracker_eval)
  note t = acceptance_idempotent[where s = ex_state and uid = "''42''" and m = "ex_msg 7 ''hi''"
         and did = "''d1''" and m' = "ex_msg 7 ''again''" and did' = "''d2''"
         and wl = "[ex_contact]" and ev = "ex_push 7" and d = ex_dialog and f = None]
  from t h1 have a: "addUnread ''42'' ''d1'' (ex_msg 7 ''hi'') ex_state = ex_state"
    by simp
  from t h2 have b:
    "addUnread ''42'' ''d2'' (ex_msg 7 ''again'') (addUnread ''42'' ''d1'' (ex_msg 7 ''hi'') ex_state) =
     addUnread ''42'' ''d1'' (ex_msg 7 ''hi'') ex_state"
    by simp
  from b have c: "addUnread ''42'' ''d2'' (ex_msg 7 ''again'') ex_state = ex_state"
    by (simp only: a)
  from h1 h2 a b e show ?thesis
    by (simp only: c simp_thms)
qed

subsection \<open>Reading the ledger\<close>

text \<open>
  C10. For a user id without a ledger row, \<^verbatim>\<open>getUnreads\<close> returns the empty entry
  (dialog id null, no messages, count 0) and the tracker is as it was: no row is created.
\<close>

theorem getUnreads_absent:
  "unreads s uid = None \<Longrightarrow>
   getUnreads uid s = (\<lparr>dialogId = None, messages = [], count = 0\<rparr>, s)"
  by (simp add: getUnreads_def)

theorem getUnreads_absent_witness:
  "unreads (new_tracker None) ''42'' = None \<and>
   getUnreads ''42'' (new_tracker None) =
     (\<lparr>dialogId = None, messages = [], count = 0\<rparr>, new_tracker None)"
proof -
  have h: "unreads (new_tracker None) ''42'' = None"
    by (simp add: new_tracker_def)
  from getUnreads_absent[OF h] h show ?thesis by simp
qed

subsection \<open>Ledger invariant\<close>

lemma inv_new: "tracker_inv (new_tracker disk)"
  by (simp add: tracker_inv_def new_tracker_def)

lemma inv_addUnread: "tracker_inv s \<Longrightarrow> tracker_inv (addUnread uid did m s)"
  by (auto simp: tracker_inv_def entry_ok_def addUnread_def Let_def emit_def list_ex_iff
        split: option.splits if_splits)

lemma inv_addAll: "tracker_inv s \<Longrightarrow> tracker_inv (addAll uid did ms s)"
  by (induction ms arbitrary: s) (auto simp: inv_addUnread)

lemma inv_markRead: "tracker_inv s \<Longrightarrow> tracker_inv (markRead ok uid s)"
  by (auto simp: tracker_inv_def markRead_def Let_def emit_def saveLastSeen_def
        split: option.splits if_splits)

lemma inv_stop: "tracker_inv s \<Longrightarrow> tracker_inv (stop ok s)"
  by (simp add: tracker_inv_def stop_def saveLastSeen_def)

lemma inv_step: "tracker_inv s \<Longrightarrow> tracker_inv (step op s)"
  by (cases op) (auto simp: handleNewMessage_def pollDialog_def Let_def
        inv_addUnread inv_addAll inv_markRead inv_stop split: option.splits)

lemma inv_run: "tracker_inv s \<Longrightarrow> tracker_inv (run ops s)"
  by (induction ops arbitrary: s) (auto simp: inv_step)

lemma ex_ops_ledger: "unreads (run ex_ops (new_tracker None)) ''42'' = Some ex_entry"
  by (simp add: ex_ops_def ex_entry_def tracker_eval)

text \<open>
  C5. In every state the tracker reaches from its constructor by push acceptances, polls of
  a dialog, \<^verbatim>\<open>markRead\<close> calls and \<^verbatim>\<open>stop\<close>, every ledger row has a count equal to the
  number of its messages and no two of its messages share an id.
\<close>

theorem ledger_invariant:
  "unreads (run ops (new_tracker disk)) uid = Some e \<Longrightarrow>
   count e = length (messages e) \<and> distinct (map msg_id (messages e))"
  using inv_run[OF inv_new, of ops disk]
  by (simp add: tracker_inv_def entry_ok_def)

theorem ledger_invariant_witness:
  "unreads (run ex_ops (new_tracker None)) ''42'' = Some ex_entry \<and>
   count ex_entry = length (messages ex_entry) \<and> distinct (map msg_id (messages ex_entry))"
  using ledger_invariant[OF ex_ops_ledger] ex_ops_ledger by simp

subsection \<open>Watermarks\<close>

lemma markRead_lastSeen:
  "lastSeenIds (markRead ok uid s) =
     (case unreads s uid of None \<Rightarrow> lastSeenIds s
      | Some e \<Rightarrow> if messages e = [] then lastSeenIds s
                  else (lastSeenIds s)(entry_key e \<mapsto> msg_id (last (messages e))))"
  by (auto simp: markRead_def Let_def emit_def saveLastSeen_def entry_key_def split: option.splits)

lemma step_lastSeen_other: "\<not> is_markRead op \<Longrightarrow> lastSeenIds (step op s) = lastSeenIds s"
  by (cases op) (auto simp: handleNewMessage_def pollDialog_def Let_def stop_def saveLastSeen_def
       addUnread_lastSeen addAll_lastSeen split: option.splits)

lemma wm_le_refl: "wm_le x x"
  by (cases x) auto

text \<open>
  C2, as the code has it. Only \<^verbatim>\<open>markRead\<close> changes a stored watermark: push and poll
  acceptance and \<^verbatim>\<open>stop\<close> leave every watermark as it is. \<^verbatim>\<open>markRead\<close> of a contact with
  buffered messages sets the watermark of the entry's dialog to the id of the message
  appended last, without comparing it with the stored value; the watermark of every dialog
  is therefore non-decreasing across the call when that id is not below the stored
  watermark of the entry's dialog. No step removes a stored watermark.
\<close>

theorem watermark_changes:
  "(\<not> is_markRead op \<longrightarrow> lastSeenIds (step op s) = lastSeenIds s) \<and>
   (unreads s uid = Some e \<and> messages e \<noteq> [] \<longrightarrow>
      lastSeenIds (step (MarkRead ok uid) s) =
        (lastSeenIds s)(entry_key e \<mapsto> msg_id (last (messages e))) \<and>
      (wm_le (lastSeenIds s (entry_key e)) (Some (msg_id (last (messages e)))) \<longrightarrow>
         wm_le (lastSeenIds s d) (lastSeenIds (step (MarkRead ok uid) s) d))) \<and>
   (lastSeenIds s d \<noteq> None \<longrightarrow> lastSeenIds (step op s) d \<noteq> None)"
proof -
  have a: "\<not> is_markRead op \<longrightarrow> lastSeenIds (step op s) = lastSeenIds s"
    using step_lastSeen_other by blast
  have c: "unreads s uid = Some e \<and> messages e \<noteq> [] \<longrightarrow>
      lastSeenIds (step (MarkRead ok uid) s) =
        (lastSeenIds s)(entry_key e \<mapsto> msg_id (last (messages e))) \<and>
      (wm_le (lastSeenIds s (entry_key e)) (Some (msg_id (last (messages e)))) \<longrightarrow>
         wm_le (lastSeenIds s d) (lastSeenIds (step (MarkRead ok uid) s) d))"
    by (auto simp: markRead_lastSeen wm_le_refl)
  have d: "lastSeenIds s d \<noteq> None \<longrightarrow> lastSeenIds (step op s) d \<noteq> None"
  proof (cases op)
    case (MarkRead ok' u)
    then show ?thesis by (auto simp: markRead_lastSeen split: option.splits)
  qed (use step_lastSeen_other[of op s] in auto)
  from a c d show ?thesis by blast
qed

text \<open>
  The watermark of dialog \<open>d1\<close> is 7 after message 7 was pushed and read; message 5 then
  arrives by push, which does not look at the watermark, and reading it stores 5.
\<close>

theorem watermark_lowered_counterexample:
  "lastSeenIds (run [Push [ex_contact] (ex_push 7), MarkRead True ''42'', Push [ex_contact] (ex_push 5)]
                  (new_tracker None)) ''d1'' = Some 7 \<and>
   lastSeenIds (step (MarkRead True ''42'')
                  (run [Push [ex_contact] (ex_push 7), MarkRead True ''42'', Push [ex_contact] (ex_push 5)]
                     (new_tracker None))) ''d1'' = Some 5"
  by (simp add: tracker_eval)

lemma ex_unread_row: "unreads ex_unread ''42'' = Some ex_single"
  by (simp add: ex_unread_def ex_single_def ex_disk_def tracker_eval)

lemma ex_unread_lastSeen: "lastSeenIds ex_unread ''d1'' = Some 3"
  by (simp add: ex_unread_def ex_disk_def tracker_eval)

lemma ex_single_facts:
  "messages ex_single \<noteq> []" "entry_key ex_single = ''d1''" "msg_id (last (messages ex_single)) = 7"
  by (simp_all add: ex_single_def entry_key_def ex_msg_def)

theorem watermark_changes_witness:
  "\<not> is_markRead (Push [ex_contact] (ex_push 8)) \<and>
   unreads ex_unread ''42'' = Some ex_single \<and> messages ex_single \<noteq> [] \<and>
   wm_le (lastSeenIds ex_unread (entry_key ex_single)) (Some (msg_id (last (messages ex_single)))) \<and>
   lastSeenIds ex_unread ''d1'' \<noteq> None \<and>
   lastSeenIds (step (Push [ex_contact] (ex_push 8)) ex_unread) = lastSeenIds ex_unread \<and>
   lastSeenIds (step (MarkRead True ''42'') ex_unread) ''d1'' = Some 7 \<and>
   wm_le (lastSeenIds ex_unread ''d1'') (lastSeenIds (step (MarkRead True ''42'') ex_unread) ''d1'')"
proof -
  have h1: "\<not> is_markRead (Push [ex_contact] (ex_push 8))" by simp
  have h2: "unreads ex_unread ''42'' = Some ex_single \<and> messages ex_single \<noteq> []"
    by (simp add: ex_unread_row ex_single_facts)
  have h3: "wm_le (lastSeenIds ex_unread (entry_key ex_single)) (Some (msg_id (last (messages ex_single))))"
    by (simp add: ex_single_facts ex_unread_lastSeen)
  have h4: "lastSeenIds ex_unread ''d1'' \<noteq> None"
    by (simp add: ex_unread_lastSeen)
  note t = watermark_changes[where op = "Push [ex_contact] (ex_push 8)" and s = ex_unread
      and uid = "''42''" and e = ex_single and ok = True and d = "''d1''"]
  from t h1 have c1: "lastSeenIds (step (Push [ex_contact] (ex_push 8)) ex_unread) = lastSeenIds ex_unread"
    by blast
  from t h2 have c2: "lastSeenIds (step (MarkRead True ''42'') ex_unread) =
      (lastSeenIds ex_unread)(entry_key ex_single \<mapsto> msg_id (last (messages ex_single)))"
    by blast
  from t h2 h3 have c3:
    "wm_le (lastSeenIds ex_unread ''d1'') (lastSeenIds (step (MarkRead True ''42'') ex_unread) ''d1'')"
    by blast
  from c2 have c4: "lastSeenIds (step (MarkRead True ''42'') ex_unread) ''d1'' = Some 7"
    by (simp add: ex_single_facts)
  from h1 h2 h3 h4 c1 c3 c4 show ?thesis by blast
qed

subsection \<open>The poll path\<close>


text \<open>
  With no stored watermark a poll selects nothing; with a stored watermark other than 0 it
  selects the fetched messages above the watermark whose sender is the contact.
\<close>

lemma pollNewMsgs_selection:
  "pollNewMsgs None uid msgs = []"
  "w \<noteq> 0 \<Longrightarrow> pollNewMsgs (Some w) uid msgs =
     filter (\<lambda>m. msg_id m > w \<and> js_string (js_or (fromId m) (senderId m)) = uid) msgs"
  by (simp_all add: pollNewMsgs_def)

text \<open>A tick that nothing interrupts is the run of its dialogs' steps.\<close>

lemma pollDialogs_as_steps:
  "pollDialogs wl fetch ds s = run (map (\<lambda>d. PollDialog wl d (fetch (js_string (dlg_id d)))) ds) s"
  by (induction ds arbitrary: s) auto

lemma poll_as_steps:
  "poll online wl dialogs fetch s =
     (if online
      then run (map (\<lambda>d. PollDialog wl d (fetch (js_string (dlg_id d))))
                  (case dialogs of None \<Rightarrow> [] | Some ds \<Rightarrow> ds)) s
      else s)"
  by (simp add: poll_def pollDialogs_as_steps split: option.splits)

text \<open>
  C3 at a stored watermark of 0. Dialog \<open>d1\<close> of the whitelisted contact 42 has the
  watermark 0 stored, and the poll fetches message 5 sent by the contact: 5 exceeds 0, yet
  the poll selects nothing and leaves the tracker as it was, because the source tests the
  watermark for truthiness. With the watermark 1 the same message is selected.
\<close>

theorem poll_zero_watermark:
  "isWhitelisted [ex_contact] (js_string (js_or (dlg_userId ex_dialog) (dlg_id ex_dialog))) \<and>
   lastSeenIds ex_zero (js_string (dlg_id ex_dialog)) = Some 0 \<and>
   pollNewMsgs (Some 0) ''42'' [ex_msg 5 ''hi''] = [] \<and>
   pollDialog [ex_contact] ex_dialog (Some [ex_msg 5 ''hi'']) ex_zero = ex_zero \<and>
   pollNewMsgs (Some 1) ''42'' [ex_msg 5 ''hi''] = [ex_msg 5 ''hi'']"
  by (simp add: ex_zero_def tracker_eval)

subsection \<open>Marking read\<close>







section \<open>Properties of the connection supervisor\<close>

lemmas daemon_eval = getHealth_def getMe_def getDialogs_def getMessages_def sendMessage_def
  daemon_markRead_def connectWS_def ws_open_def ws_message_def ws_close_def ws_error_def
  startHealthCheck_def stopHealthCheck_def daemon_stop_def scheduleReconnect_def
  d_emit_def maxReconnectDelay_def new_daemon_def Let_def

subsection \<open>Reconnect backoff\<close>

lemma dstep_attempts:
  "op \<noteq> WsOpen \<Longrightarrow>
   reconnectAttempts (dstep op s) = reconnectAttempts s + (if schedules op then 1 else 0) \<and>
   timeouts (dstep op s) =
     timeouts s @ (if schedules op then [min (1000 * 2 ^ reconnectAttempts s) 30000] else [])"
  by (cases op)
     (auto simp: getHealth_def getMe_def getDialogs_def getMessages_def sendMessage_def
        daemon_markRead_def connectWS_def ws_message_def ws_close_def ws_error_def
        startHealthCheck_def stopHealthCheck_def daemon_stop_def scheduleReconnect_def
        d_emit_def Let_def maxReconnectDelay_def split: option.splits)

lemma drun_backoff:
  "WsOpen \<notin> set ops \<Longrightarrow>
   reconnectAttempts (drun ops s) = reconnectAttempts s + length (filter schedules ops) \<and>
   timeouts (drun ops s) =
     timeouts s @ map (\<lambda>k. min (1000 * 2 ^ k) 30000)
                    [reconnectAttempts s ..< reconnectAttempts s + length (filter schedules ops)]"
proof (induction ops arbitrary: s)
  case Nil
  then show ?case by simp
next
  case (Cons op ops)
  then have ne: "op \<noteq> WsOpen" and rest: "WsOpen \<notin> set ops" by auto
  note st = dstep_attempts[OF ne, of s]
  note ih = Cons.IH[OF rest, of "dstep op s"]
  show ?case
  proof (cases "schedules op")
    case True
    have "[reconnectAttempts s ..< reconnectAttempts s + Suc (length (filter schedules ops))] =
          reconnectAttempts s #
            [Suc (reconnectAttempts s) ..< Suc (reconnectAttempts s) + length (filter schedules ops)]"
      by (simp add: upt_conv_Cons del: upt_Suc)
    with True st ih show ?thesis by (simp del: upt_Suc)
  next
    case False
    with st ih show ?thesis by simp
  qed
qed

text \<open>
  C7. Starting where \<open>reconnectAttempts\<close> is 0, as after a socket open or at start, and for
  any steps without a socket open, the Nth delay handed to \<^verbatim>\<open>setTimeout\<close> by
  \<^verbatim>\<open>_scheduleReconnect\<close> is \<open>min (1000 * 2 ^ (N - 1)) 30000\<close> milliseconds, for every N from 1
  to the number of scheduling steps. Each call of \<^verbatim>\<open>_scheduleReconnect\<close> arms the timer with
  \<open>min (1000 * 2 ^ attempts) 30000\<close>, whatever the count, and adds one to the count; a socket
  open sets the count to 0, and every other step either calls \<^verbatim>\<open>_scheduleReconnect\<close> (the
  close handler, and \<^verbatim>\<open>connectWS\<close> when no socket can be constructed) or leaves the count and
  the timer as they are; the close after an open schedules 1000 ms.
\<close>

theorem reconnect_backoff:
  "(reconnectAttempts s = 0 \<and> WsOpen \<notin> set ops \<and> 1 \<le> N \<and> N \<le> length (filter schedules ops) \<longrightarrow>
      drop (length (timeouts s)) (timeouts (drun ops s)) ! (N - 1) = spec_backoff N) \<and>
   timeouts (scheduleReconnect s) = timeouts s @ [min (1000 * 2 ^ reconnectAttempts s) 30000] \<and>
   reconnectTimer (scheduleReconnect s) = Some (min (1000 * 2 ^ reconnectAttempts s) 30000) \<and>
   reconnectAttempts (scheduleReconnect s) = reconnectAttempts s + 1 \<and>
   reconnectAttempts (dstep WsOpen s) = 0 \<and>
   (op \<noteq> WsOpen \<longrightarrow>
      reconnectAttempts (dstep op s) = reconnectAttempts s + (if schedules op then 1 else 0) \<and>
      timeouts (dstep op s) =
        timeouts s @ (if schedules op then [min (1000 * 2 ^ reconnectAttempts s) 30000] else [])) \<and>
   timeouts (dstep WsClose (dstep WsOpen s)) = timeouts s @ [1000]"
proof -
  have a: "reconnectAttempts s = 0 \<and> WsOpen \<notin> set ops \<and> 1 \<le> N \<and> N \<le> length (filter schedules ops) \<longrightarrow>
      drop (length (timeouts s)) (timeouts (drun ops s)) ! (N - 1) = spec_backoff N"
  proof
    assume h: "reconnectAttempts s = 0 \<and> WsOpen \<notin> set ops \<and> 1 \<le> N \<and> N \<le> length (filter schedules ops)"
    then have "timeouts (drun ops s) =
       timeouts s @ map (\<lambda>k. min (1000 * 2 ^ k) 30000) [0 ..< length (filter schedules ops)]"
      using drun_backoff[of ops s] by simp
    moreover from h have "N - 1 < length (filter schedules ops)" by arith
    ultimately show "drop (length (timeouts s)) (timeouts (drun ops s)) ! (N - 1) = spec_backoff N"
      by (simp add: spec_backoff_def)
  qed
  have b: "op \<noteq> WsOpen \<longrightarrow>
      reconnectAttempts (dstep op s) = reconnectAttempts s + (if schedules op then 1 else 0) \<and>
      timeouts (dstep op s) =
        timeouts s @ (if schedules op then [min (1000 * 2 ^ reconnectAttempts s) 30000] else [])"
    using dstep_attempts[of op s] by blast
  have c: "timeouts (dstep WsClose (dstep WsOpen s)) = timeouts s @ [1000]"
    by (simp add: ws_close_def ws_open_def scheduleReconnect_def d_emit_def Let_def maxReconnectDelay_def)
  from a b c show ?thesis
    by (simp add: scheduleReconnect_def Let_def maxReconnectDelay_def ws_open_def d_emit_def)
qed

theorem reconnect_backoff_witness:
  "reconnectAttempts new_daemon = 0 \<and> WsOpen \<notin> set ex_daemon_ops \<and> (1::nat) \<le> 6 \<and>
   6 \<le> length (filter schedules ex_daemon_ops) \<and> GetHealth None \<noteq> WsOpen \<and>
   timeouts (drun ex_daemon_ops new_daemon) = [1000, 2000, 4000, 8000, 16000, 30000] \<and>
   drop (length (timeouts new_daemon)) (timeouts (drun ex_daemon_ops new_daemon)) ! (6 - 1) = spec_backoff 6 \<and>
   spec_backoff 6 = 30000 \<and>
   timeouts (dstep WsClose (dstep WsOpen (drun ex_daemon_ops new_daemon))) =
     [1000, 2000, 4000, 8000, 16000, 30000, 1000]"
proof -
  have h: "reconnectAttempts new_daemon = 0 \<and> WsOpen \<notin> set ex_daemon_ops \<and> (1::nat) \<le> 6 \<and>
           6 \<le> length (filter schedules ex_daemon_ops)"
    by (simp add: new_daemon_def ex_daemon_ops_def)
  have h': "GetHealth None \<noteq> WsOpen" by simp
  have e: "timeouts (drun ex_daemon_ops new_daemon) = [1000, 2000, 4000, 8000, 16000, 30000]"
    by (simp add: ex_daemon_ops_def daemon_eval)
  have v: "spec_backoff 6 = 30000" by (simp add: spec_backoff_def)
  note t = reconnect_backoff[where s = new_daemon and ops = ex_daemon_ops and N = 6
      and op = "GetHealth None"]
  from t h have c1:
    "drop (length (timeouts new_daemon)) (timeouts (drun ex_daemon_ops new_daemon)) ! (6 - 1) = spec_backoff 6"
    by blast
  from reconnect_backoff[where s = "drun ex_daemon_ops new_daemon" and ops = "[]" and N = 0
      and op = "GetHealth None"]
  have "timeouts (dstep WsClose (dstep WsOpen (drun ex_daemon_ops new_daemon))) =
     timeouts (drun ex_daemon_ops new_daemon) @ [1000]"
    by blast
  with e have c2: "timeouts (dstep WsClose (dstep WsOpen (drun ex_daemon_ops new_daemon))) =
     [1000, 2000, 4000, 8000, 16000, 30000, 1000]"
    by simp
  from h h' e v c1 c2 show ?thesis by blast
qed

subsection \<open>Writers of the connected flag\<close>

text \<open>
  C8, as the code has it. Three steps write \<open>connected\<close> and emit \<^verbatim>\<open>connection-changed\<close>:
  the completion of \<^verbatim>\<open>getHealth\<close> (true when the request resolved, false when it failed),
  the socket's open handler (true) and the socket's close handler (false). Every other
  step (the other request wrappers, \<^verbatim>\<open>connectWS\<close> and reconnect scheduling, the message
  and error handlers, starting and stopping) leaves the flag as it is, and emits no
  \<^verbatim>\<open>connection-changed\<close> unless it is the message handler re-emitting a frame whose own
  \<^verbatim>\<open>type\<close> is that name.
\<close>

theorem connection_flag_writers:
  "(\<not> flips op \<longrightarrow>
      connected (dstep op s) = connected s \<and>
      (frame_type op \<noteq> Some ''connection-changed'' \<longrightarrow>
         ''connection-changed'' \<notin> fst ` set (emitted_by op s))) \<and>
   connected (dstep (GetHealth r) s) = (r \<noteq> None) \<and>
   emitted_by (GetHealth r) s = [(''connection-changed'', PBool (r \<noteq> None))] \<and>
   connected (dstep WsOpen s) = True \<and>
   emitted_by WsOpen s = [(''connection-changed'', PBool True), (''ws-connected'', PNone)] \<and>
   connected (dstep WsClose s) = False \<and>
   emitted_by WsClose s = [(''connection-changed'', PBool False), (''ws-disconnected'', PNone)]"
proof -
  have a: "\<not> flips op \<longrightarrow>
      connected (dstep op s) = connected s \<and>
      (frame_type op \<noteq> Some ''connection-changed'' \<longrightarrow>
         ''connection-changed'' \<notin> fst ` set (emitted_by op s))"
  proof (cases op)
    case (WsMessage f)
    then show ?thesis
      by (cases f) (auto simp: emitted_by_def ws_message_def d_emit_def Let_def split: option.splits)
  qed (auto simp: emitted_by_def getMe_def getDialogs_def getMessages_def sendMessage_def
        daemon_markRead_def connectWS_def ws_error_def
        startHealthCheck_def stopHealthCheck_def daemon_stop_def scheduleReconnect_def
        d_emit_def Let_def split: option.splits)
  have b: "connected (dstep (GetHealth r) s) = (r \<noteq> None) \<and>
   emitted_by (GetHealth r) s = [(''connection-changed'', PBool (r \<noteq> None))]"
    by (cases r) (simp_all add: emitted_by_def getHealth_def d_emit_def)
  have c: "connected (dstep WsOpen s) = True \<and>
   emitted_by WsOpen s = [(''connection-changed'', PBool True), (''ws-connected'', PNone)]"
    by (simp add: emitted_by_def ws_open_def d_emit_def)
  have d: "connected (dstep WsClose s) = False \<and>
   emitted_by WsClose s = [(''connection-changed'', PBool False), (''ws-disconnected'', PNone)]"
    by (simp add: emitted_by_def ws_close_def d_emit_def scheduleReconnect_def Let_def)
  from a b c d show ?thesis by blast
qed

theorem connection_flag_writers_witness:
  "\<not> flips (WsMessage (Some (ex_push 7))) \<and>
   frame_type (WsMessage (Some (ex_push 7))) \<noteq> Some ''connection-changed'' \<and>
   connected (dstep (WsMessage (Some (ex_push 7))) new_daemon) = connected new_daemon \<and>
   ''connection-changed'' \<notin> fst ` set (emitted_by (WsMessage (Some (ex_push 7))) new_daemon) \<and>
   emitted_by (WsMessage (Some (ex_push 7))) new_daemon =
     [(''event'', PEvent (ex_push 7)), (''newMessage'', PEvent (ex_push 7))] \<and>
   connected (dstep (GetHealth (Some ''ok'')) new_daemon) = True"
proof -
  have h1: "\<not> flips (WsMessage (Some (ex_push 7)))" by simp
  have h2: "frame_type (WsMessage (Some (ex_push 7))) \<noteq> Some ''connection-changed''"
    by (simp add: ex_push_def)
  have e: "emitted_by (WsMessage (Some (ex_push 7))) new_daemon =
     [(''event'', PEvent (ex_push 7)), (''newMessage'', PEvent (ex_push 7))]"
    by (simp add: emitted_by_def ws_message_def d_emit_def new_daemon_def ex_push_def)
  note t = connection_flag_writers[where op = "WsMessage (Some (ex_push 7))" and s = new_daemon
      and r = "Some ''ok''"]
  from t h1 have c1: "connected (dstep (WsMessage (Some (ex_push 7))) new_daemon) = connected new_daemon"
    by blast
  from t h1 h2 have c2:
    "''connection-changed'' \<notin> fst ` set (emitted_by (WsMessage (Some (ex_push 7))) new_daemon)"
    by blast
  from t have c3: "connected (dstep (GetHealth (Some ''ok'')) new_daemon) = True"
    by simp
  from h1 h2 e c1 c2 c3 show ?thesis by blast
qed

text \<open>
  The socket's open handler is not \<^verbatim>\<open>getHealth\<close>, and it turns the flag from false to true
  and emits \<^verbatim>\<open>connection-changed\<close>; the close handler turns it back and emits again.
\<close>

theorem ws_open_flips_counterexample:
  "connected new_daemon = False \<and>
   connected (dstep WsOpen new_daemon) = True \<and>
   d_emitted (dstep WsOpen new_daemon) =
     [(''connection-changed'', PBool True), (''ws-connected'', PNone)] \<and>
   connected (dstep WsClose (dstep WsOpen new_daemon)) = False \<and>
   d_emitted (dstep WsClose (dstep WsOpen new_daemon)) =
     [(''connection-changed'', PBool True), (''ws-connected'', PNone),
      (''connection-changed'', PBool False), (''ws-disconnected'', PNone)]"
  by (simp add: daemon_eval)

section \<open>Properties of the bubble window pool\<close>

lemmas pool_eval = handleUnreadsChanged_def createBubble_def updateBubble_def removeBubble_def
  window_closed_def window_destroyed_def showAll_def hideAll_def toggleVisibility_def
  destroyAll_def update_settings_handler_def updateSettings_def repositionAll_def
  map_has_def map_delete_def edge_x_def slot_y_def layout_def new_bubbles_def
  DEFAULT_settings_def MAX_BUBBLES_def BUBBLE_SIZE_def BUBBLE_GAP_def EDGE_MARGIN_def Let_def









subsection \<open>Slots\<close>

text \<open>
  \<^verbatim>\<open>repositionAll\<close> itself is compact: when no window of the pool is destroyed, the
  windows get the slots 0, 1, 2, ... in map order.
\<close>

lemma reposition_slots:
  "\<forall>p\<in>set m. \<not> destroyed (snd p) \<Longrightarrow>
   map (win_y \<circ> snd) (reposition x i m) = map slot_y [i ..< i + length m]"
proof (induction x i m rule: reposition.induct)
  case (1 x index)
  then show ?case by simp
next
  case (2 x index k w rest)
  have "[index ..< index + Suc (length rest)] = index # [Suc index ..< Suc index + length rest]"
    by (simp add: upt_conv_Cons del: upt_Suc)
  with 2 show ?case by (simp del: upt_Suc)
qed

lemma update_position_repositions:
  "layout (prun 1440 (ex_gap @ [UpdateSettings ex_left]) (DEFAULT_settings, new_bubbles)) = [(''b'', 100)]"
  by (simp add: ex_gap_def ex_left_def pool_eval)

text \<open>
  C9 at a removal. Contacts \<open>a\<close> and \<open>b\<close> get the windows of slots 0 and 1, at 100 and 176.
  The unread count of \<open>a\<close> drops to 0 and its window is removed: nothing is repositioned,
  and the window of \<open>b\<close>, now the only one, stays at 176 instead of slot 0 at 100. A window
  then created for \<open>c\<close> takes the slot of the pool's size, 1, and lies on the window of \<open>b\<close>.
\<close>

theorem removal_leaves_gap:
  "layout (prun 1440 [UnreadsChanged ''a'' 1, UnreadsChanged ''b'' 1] (DEFAULT_settings, new_bubbles)) =
     [(''a'', 100), (''b'', 176)] \<and>
   layout (prun 1440 ex_gap (DEFAULT_settings, new_bubbles)) = [(''b'', 176)] \<and>
   slot_y 0 = 100 \<and>
   layout (prun 1440 (ex_gap @ [UnreadsChanged ''c'' 1]) (DEFAULT_settings, new_bubbles)) =
     [(''b'', 176), (''c'', 176)] \<and>
   layout (prun 1440 [UnreadsChanged ''a'' 1, UnreadsChanged ''b'' 1, RemoveBubble ''a'']
             (DEFAULT_settings, new_bubbles)) = [(''b'', 176)]"
  by (simp add: ex_gap_def pool_eval)

end
